theory Spec2Isabelle
  imports Complex_Main
begin

section \<open>Python values, exceptions and log records\<close>

text \<open>
  The values that travel through the two services are the JSON-like values of Python:
  \<open>None\<close>, booleans, unbounded integers, floats, strings, lists and dictionaries (an
  association list, looked up with \<open>map_of\<close>). A float is a finite value or one of the
  three special values; only its conversion to an integer is used, which is exact.
\<close>

datatype pyfloat = Finite real | NaN | PosInf | NegInf

datatype pyval = PNone | PBool bool | PInt int | PFloat pyfloat | PStr string
  | PList "pyval list" | PDict "(string \<times> pyval) list"

text \<open>
  Exceptions are instances of \<open>Exception\<close>: a class and the text \<open>str(e)\<close> gives.
  \<open>ValidationError\<close> is pydantic's, a subclass of \<open>ValueError\<close>.
\<close>

datatype exc_class = KeyError | ValueError | TypeError | OverflowError | AttributeError
  | ValidationError | RuntimeError

record py_exception =
  exc_class :: exc_class
  exc_str :: string

datatype log_level = INFO | WARNING | ERROR

record HTTPException =
  status_code :: nat
  detail :: string

section \<open>Preprocessing service: \<open>public/models.py\<close>\<close>

record BBox =
  x1 :: int
  y1 :: int
  x2 :: int
  y2 :: int

record BBoxInfo =
  bbox :: BBox
  type :: string

record SegmentContent =
  "text" :: string
  metadata :: "(string \<times> pyval) list option"

record DocumentSegment =
  bbox :: BBox
  segment_type :: string
  content :: SegmentContent
  confidence :: "real option"
  bbox_info :: "BBoxInfo list option"

record ProcessResponse =
  segments :: "DocumentSegment list"
  total_segments :: int
  elapsed_ms :: real
  status :: string

record HealthResponse =
  status :: string
  service :: string

text \<open>
  \<open>ProcessResponse(...)\<close> validates its fields: \<open>total_segments\<close> and
  \<open>elapsed_ms\<close> carry \<open>ge=0\<close>. The segments handed over are \<open>DocumentSegment\<close>
  instances already. Of the text of pydantic's error only the first line is kept.
\<close>

definition ProcessResponse_init ::
  "DocumentSegment list \<Rightarrow> int \<Rightarrow> real \<Rightarrow> string \<Rightarrow> py_exception + ProcessResponse" where
  "ProcessResponse_init segs n ms st =
     (if n < 0 then
        Inl \<lparr>exc_class = ValidationError,
             exc_str = ''1 validation error for ProcessResponse''\<rparr>
      else if ms < 0 then
        Inl \<lparr>exc_class = ValidationError,
             exc_str = ''1 validation error for ProcessResponse''\<rparr>
      else Inr \<lparr>segments = segs, total_segments = n, ProcessResponse.elapsed_ms = ms, status = st\<rparr>)"

section \<open>Preprocessing service: \<open>public/api.py\<close>\<close>

text \<open>
  The service URLs are read from the environment once, with defaults.
\<close>

definition getenv :: "(string \<rightharpoonup> string) \<Rightarrow> string \<Rightarrow> string \<Rightarrow> string" where
  "getenv env k d = (case env k of None \<Rightarrow> d | Some v \<Rightarrow> v)"

definition PPSTRUCTURE_URL :: "(string \<rightharpoonup> string) \<Rightarrow> string" where
  "PPSTRUCTURE_URL env = getenv env ''PPSTRUCTURE_URL'' ''http://paddleocr:8080''"

definition PADDLEVL_URL :: "(string \<rightharpoonup> string) \<Rightarrow> string" where
  "PADDLEVL_URL env = getenv env ''PADDLEVL_URL'' ''http://paddleocr-vl:8080''"

record UploadFile =
  content_type :: "string option"
  filename :: "string option"
  file_bytes :: "nat list"

text \<open>
  The arguments of the one call of \<open>run_preprocessing_pipeline_with_splits\<close>. The
  pipeline module itself (\<open>app/private/pipeline.py\<close>) is a parameter \<open>pl\<close> of the
  handler: a function from these arguments to an exception or to the list of
  \<open>(segment_image, segment_list)\<close> pairs it returns.
\<close>

record pipeline_args =
  image_data :: "nat list"
  ppstructure_url :: string
  paddlevl_url :: string
  max_segments :: int
  min_height :: int

type_synonym 'img pipeline_results = "('img \<times> DocumentSegment list) list"

type_synonym 'img pipeline = "pipeline_args \<Rightarrow> py_exception + 'img pipeline_results"

text \<open>
  What a handler does besides returning: log records (level only), reading the upload
  and calling the pipeline, in the order they happen.
\<close>

datatype event = Log log_level | ReadUpload | RunPipeline pipeline_args

fun startswith :: "string \<Rightarrow> string \<Rightarrow> bool" where
  "startswith s [] = True"
| "startswith [] (p # ps) = False"
| "startswith (c # cs) (p # ps) = (c = p \<and> startswith cs ps)"

text \<open>The guard of both upload handlers:
  \<open>not image.content_type or not image.content_type.startswith("image/")\<close>.\<close>

definition invalid_file_type :: "UploadFile \<Rightarrow> bool" where
  "invalid_file_type upload =
     (case content_type upload of None \<Rightarrow> True
      | Some ct \<Rightarrow> ct = [] \<or> \<not> startswith ct ''image/'')"

text \<open>\<open>GET /health\<close>: no parameter, no state read. The argument is the state of the
  system at the time of the call, of any type.\<close>

definition health_check :: "'state \<Rightarrow> HealthResponse" where
  "health_check s = \<lparr>status = ''healthy'', service = ''Preprocessing''\<rparr>"

text \<open>The loop \<open>for segment_image, segment_list in results: segments.extend(segment_list)\<close>.\<close>

fun extend_segments ::
  "DocumentSegment list \<Rightarrow> 'img pipeline_results \<Rightarrow> DocumentSegment list" where
  "extend_segments segs [] = segs"
| "extend_segments segs ((segment_image, segment_list) # rest) =
     extend_segments (segs @ segment_list) rest"

text \<open>
  \<open>POST /process\<close>. \<open>t0\<close> and \<open>t1\<close> are the two readings of
  \<open>time.perf_counter()\<close>. The result is the events of the call and either the
  \<open>HTTPException\<close> raised or the response returned.
\<close>

definition process_document ::
  "(string \<rightharpoonup> string) \<Rightarrow> 'img pipeline \<Rightarrow> UploadFile \<Rightarrow> int \<Rightarrow> int \<Rightarrow> real \<Rightarrow> real
     \<Rightarrow> event list \<times> (HTTPException + ProcessResponse)" where
  "process_document env pl upload max_segs min_h t0 t1 =
     (if invalid_file_type upload
      then ([Log WARNING],
            Inl \<lparr>status_code = 400, detail = ''File must be an image (JPEG, PNG, etc.)''\<rparr>)
      else
        let args = \<lparr>image_data = file_bytes upload,
                    ppstructure_url = PPSTRUCTURE_URL env,
                    paddlevl_url = PADDLEVL_URL env,
                    max_segments = max_segs,
                    min_height = min_h\<rparr>;
            before = [Log INFO, ReadUpload, RunPipeline args]
        in case pl args of
             Inl e \<Rightarrow>
               (before @ [Log ERROR],
                Inl \<lparr>status_code = 500,
                     detail = ''Failed to process document: '' @ exc_str e\<rparr>)
           | Inr results \<Rightarrow>
               let segs = extend_segments [] results;
                   ms = (t1 - t0) * 1000
               in case ProcessResponse_init segs (int (length segs)) ms ''success'' of
                    Inl e \<Rightarrow>
                      (before @ [Log INFO, Log ERROR],
                       Inl \<lparr>status_code = 500,
                            detail = ''Failed to process document: '' @ exc_str e\<rparr>)
                  | Inr r \<Rightarrow> (before @ [Log INFO], Inr r))"

section \<open>Layout service: \<open>paddleocr/app/models.py\<close>\<close>

record Detection =
  bbox :: BBox
  cls :: string
  confidence :: "real option"

record AnalyzeResponse =
  detections :: "Detection list"
  elapsed_ms :: real

text \<open>
  Two behaviours of the libraries are parameters of the model: what \<open>int(s)\<close> gives for
  a string (\<open>None\<close> for \<open>ValueError\<close>), and what pydantic makes of a value that is
  not a string in a \<open>str\<close> field (\<open>None\<close> for a validation error; version 1
  converts numbers, version 2 refuses them).
\<close>

record pylib =
  int_of_str :: "string \<Rightarrow> int option"
  str_of_nonstr :: "pyval \<Rightarrow> string option"

text \<open>\<open>BBox(x1=.., y1=.., x2=.., y2=..)\<close>: every field carries \<open>ge=0\<close>.\<close>

definition BBox_init :: "int \<Rightarrow> int \<Rightarrow> int \<Rightarrow> int \<Rightarrow> py_exception + BBox" where
  "BBox_init a b c d =
     (if a < 0 \<or> b < 0 \<or> c < 0 \<or> d < 0 then
        Inl \<lparr>exc_class = ValidationError, exc_str = ''validation error for BBox''\<rparr>
      else Inr \<lparr>x1 = a, y1 = b, x2 = c, y2 = d\<rparr>)"

text \<open>\<open>Detection(bbox=.., cls=..)\<close>: \<open>cls\<close> is a \<open>str\<close> field, \<open>confidence\<close> is left
  at its default \<open>None\<close>.\<close>

definition Detection_init :: "pylib \<Rightarrow> BBox \<Rightarrow> pyval \<Rightarrow> py_exception + Detection" where
  "Detection_init lib box label =
     (case label of
        PStr s \<Rightarrow> Inr \<lparr>bbox = box, cls = s, confidence = None\<rparr>
      | _ \<Rightarrow>
        (case str_of_nonstr lib label of
           Some s \<Rightarrow> Inr \<lparr>bbox = box, cls = s, confidence = None\<rparr>
         | None \<Rightarrow>
           Inl \<lparr>exc_class = ValidationError,
                exc_str = ''1 validation error for Detection''\<rparr>))"

definition AnalyzeResponse_init :: "Detection list \<Rightarrow> real \<Rightarrow> py_exception + AnalyzeResponse" where
  "AnalyzeResponse_init dets ms =
     (if ms < 0 then
        Inl \<lparr>exc_class = ValidationError,
             exc_str = ''1 validation error for AnalyzeResponse''\<rparr>
      else Inr \<lparr>detections = dets, elapsed_ms = ms\<rparr>)"

section \<open>Layout service: \<open>paddleocr/app/main.py\<close>\<close>

subsection \<open>The built-in operations the handler uses\<close>

text \<open>
  The class of each exception is Python's; the texts are abridged (only the text of an
  exception that leaves the loop reaches the response).
\<close>

text \<open>\<open>int(v)\<close>: a float is truncated toward zero.\<close>

fun py_int :: "pylib \<Rightarrow> pyval \<Rightarrow> py_exception + int" where
  "py_int lib (PBool b) = Inr (if b then 1 else 0)"
| "py_int lib (PInt i) = Inr i"
| "py_int lib (PFloat (Finite r)) = Inr (if 0 \<le> r then \<lfloor>r\<rfloor> else \<lceil>r\<rceil>)"
| "py_int lib (PFloat NaN) =
     Inl \<lparr>exc_class = ValueError, exc_str = ''cannot convert float NaN to integer''\<rparr>"
| "py_int lib (PFloat PosInf) =
     Inl \<lparr>exc_class = OverflowError, exc_str = ''cannot convert float infinity to integer''\<rparr>"
| "py_int lib (PFloat NegInf) =
     Inl \<lparr>exc_class = OverflowError, exc_str = ''cannot convert float infinity to integer''\<rparr>"
| "py_int lib (PStr s) =
     (case int_of_str lib s of
        Some i \<Rightarrow> Inr i
      | None \<Rightarrow>
        Inl \<lparr>exc_class = ValueError, exc_str = ''invalid literal for int() with base 10''\<rparr>)"
| "py_int lib v =
     Inl \<lparr>exc_class = TypeError,
          exc_str = ''int() argument must be a string, a bytes-like object or a real number''\<rparr>"

text \<open>\<open>obj[k]\<close> with a string key: only a dictionary can be subscripted so.\<close>

fun py_getitem :: "pyval \<Rightarrow> string \<Rightarrow> py_exception + pyval" where
  "py_getitem (PDict kvs) k =
     (case map_of kvs k of
        Some v \<Rightarrow> Inr v
      | None \<Rightarrow> Inl \<lparr>exc_class = KeyError, exc_str = k\<rparr>)"
| "py_getitem v k =
     Inl \<lparr>exc_class = TypeError, exc_str = ''object is not subscriptable with a string''\<rparr>"

text \<open>\<open>obj.get(k, d)\<close>: a method of dictionaries only.\<close>

fun py_get :: "pyval \<Rightarrow> string \<Rightarrow> pyval \<Rightarrow> py_exception + pyval" where
  "py_get (PDict kvs) k d = Inr (case map_of kvs k of Some v \<Rightarrow> v | None \<Rightarrow> d)"
| "py_get v k d =
     Inl \<lparr>exc_class = AttributeError, exc_str = ''object has no attribute get''\<rparr>"

text \<open>Iteration: the elements of a list, the keys of a dictionary, the characters of a
  string; nothing else is iterable.\<close>

fun py_iter :: "pyval \<Rightarrow> py_exception + pyval list" where
  "py_iter (PList vs) = Inr vs"
| "py_iter (PDict kvs) = Inr (map (\<lambda>kv. PStr (fst kv)) kvs)"
| "py_iter (PStr s) = Inr (map (\<lambda>c. PStr [c]) s)"
| "py_iter v = Inl \<lparr>exc_class = TypeError, exc_str = ''object is not iterable''\<rparr>"

text \<open>\<open>map(int, vs)\<close>, consumed from the left: the first failing conversion raises.\<close>

fun map_int :: "pylib \<Rightarrow> pyval list \<Rightarrow> py_exception + int list" where
  "map_int lib [] = Inr []"
| "map_int lib (v # vs) =
     (case py_int lib v of
        Inl e \<Rightarrow> Inl e
      | Inr i \<Rightarrow> (case map_int lib vs of Inl e \<Rightarrow> Inl e | Inr js \<Rightarrow> Inr (i # js)))"

text \<open>
  \<open>x1, y1, x2, y2 = map(int, vs)\<close>. Unpacking into four names asks the iterator for a
  fifth element, so at most five values are converted.
\<close>

definition unpack4 :: "pylib \<Rightarrow> pyval list \<Rightarrow> py_exception + (int \<times> int \<times> int \<times> int)" where
  "unpack4 lib vs =
     (case map_int lib (take 5 vs) of
        Inl e \<Rightarrow> Inl e
      | Inr [a, b, c, d] \<Rightarrow> Inr (a, b, c, d)
      | Inr js \<Rightarrow>
        Inl \<lparr>exc_class = ValueError,
             exc_str = (if length js < 4 then ''not enough values to unpack (expected 4)''
                        else ''too many values to unpack (expected 4)'')\<rparr>)"

subsection \<open>The loop over the layout entries\<close>

text \<open>The body of the \<open>try\<close>: the detection appended, or the exception raised.\<close>

definition detection_try :: "pylib \<Rightarrow> pyval \<Rightarrow> py_exception + Detection" where
  "detection_try lib obj =
     (case py_getitem obj ''block_bbox'' of Inl e \<Rightarrow> Inl e | Inr bb \<Rightarrow>
      case py_iter bb of Inl e \<Rightarrow> Inl e | Inr vs \<Rightarrow>
      case unpack4 lib vs of Inl e \<Rightarrow> Inl e | Inr (a, b, c, d) \<Rightarrow>
      case BBox_init a b c d of Inl e \<Rightarrow> Inl e | Inr box \<Rightarrow>
      case py_get obj ''block_label'' (PStr ''unknown'') of Inl e \<Rightarrow> Inl e | Inr label \<Rightarrow>
      Detection_init lib box label)"

text \<open>\<open>except (KeyError, ValueError, TypeError)\<close>.\<close>

definition caught :: "py_exception \<Rightarrow> bool" where
  "caught e = (exc_class e \<in> {KeyError, ValueError, TypeError, ValidationError})"

text \<open>The \<open>for\<close> loop: the log records written, and the detections collected or the
  exception that left the loop.\<close>

fun collect_detections ::
  "pylib \<Rightarrow> Detection list \<Rightarrow> pyval list \<Rightarrow> event list \<times> (py_exception + Detection list)" where
  "collect_detections lib dets [] = ([], Inr dets)"
| "collect_detections lib dets (obj # rest) =
     (case detection_try lib obj of
        Inr d \<Rightarrow> collect_detections lib (dets @ [d]) rest
      | Inl e \<Rightarrow>
        if caught e then
          (case collect_detections lib dets rest of (lg, r) \<Rightarrow> (Log WARNING # lg, r))
        else ([], Inl e))"

subsection \<open>\<open>POST /analyze\<close>\<close>

text \<open>The decoded page: its size in pixels (the pixels themselves play no part).\<close>

record rgb_image =
  width :: nat
  height :: nat

text \<open>
  The body of the outer \<open>try\<close>: \<open>layout_entries\<close> is
  \<open>result.get("res", {}).get("parsing_res_list", [])\<close>, iterated by the loop;
  \<open>decode\<close> is \<open>Image.open(..).convert("RGB")\<close>,
  \<open>predict\<close> is \<open>ppstruct.predict(img_array)[0].json\<close>; both may raise.
\<close>

definition layout_entries :: "pyval \<Rightarrow> py_exception + pyval list" where
  "layout_entries result =
     (case py_get result ''res'' (PDict []) of
        Inl e \<Rightarrow> Inl e
      | Inr res \<Rightarrow>
     (case py_get res ''parsing_res_list'' (PList []) of
        Inl e \<Rightarrow> Inl e
      | Inr layout_res \<Rightarrow> py_iter layout_res))"

definition analyze_body ::
  "pylib \<Rightarrow> (nat list \<Rightarrow> py_exception + rgb_image) \<Rightarrow> (rgb_image \<Rightarrow> py_exception + pyval)
     \<Rightarrow> UploadFile \<Rightarrow> real \<Rightarrow> real \<Rightarrow> event list \<times> (py_exception + AnalyzeResponse)" where
  "analyze_body lib decode predict upload t0 t1 =
     (case decode (file_bytes upload) of
        Inl e \<Rightarrow> ([Log INFO, ReadUpload], Inl e)
      | Inr img_array \<Rightarrow>
     (case predict img_array of
        Inl e \<Rightarrow> ([Log INFO, ReadUpload, Log INFO], Inl e)
      | Inr result \<Rightarrow>
     (case layout_entries result of
        Inl e \<Rightarrow> ([Log INFO, ReadUpload, Log INFO], Inl e)
      | Inr objs \<Rightarrow>
     (case collect_detections lib [] objs of
        (lg, Inl e) \<Rightarrow> ([Log INFO, ReadUpload, Log INFO] @ lg, Inl e)
      | (lg, Inr dets) \<Rightarrow>
          ([Log INFO, ReadUpload, Log INFO] @ lg @ [Log INFO],
           AnalyzeResponse_init dets ((t1 - t0) * 1000))))))"

text \<open>The handler; \<open>ppstruct\<close> is \<open>app.state.ppstruct\<close>, \<open>None\<close> before start-up
  has finished.\<close>

definition analyze_document ::
  "pylib \<Rightarrow> (nat list \<Rightarrow> py_exception + rgb_image) \<Rightarrow> (rgb_image \<Rightarrow> py_exception + pyval) option
     \<Rightarrow> UploadFile \<Rightarrow> real \<Rightarrow> real \<Rightarrow> event list \<times> (HTTPException + AnalyzeResponse)" where
  "analyze_document lib decode ppstruct upload t0 t1 =
     (if invalid_file_type upload then
        ([Log WARNING],
         Inl \<lparr>status_code = 400, detail = ''File must be an image (JPEG, PNG, etc.)''\<rparr>)
      else
        case ppstruct of
          None \<Rightarrow>
            ([Log ERROR],
             Inl \<lparr>status_code = 503,
                  detail = ''Service not ready - PPStructure not initialized''\<rparr>)
        | Some predict \<Rightarrow>
            (case analyze_body lib decode predict upload t0 t1 of
               (lg, Inl e) \<Rightarrow>
                 (lg @ [Log ERROR],
                  Inl \<lparr>status_code = 500,
                       detail = ''Failed to process image: '' @ exc_str e\<rparr>)
             | (lg, Inr r) \<Rightarrow> (lg, Inr r)))"

section \<open>The pipeline coordinator of the design specification\<close>

text \<open>
  Modelled from the spec: the module \<open>app/private/pipeline.py\<close>, whose
  \<open>run_preprocessing_pipeline_with_splits\<close> the handler calls, is not among the
  sources. This section follows the design specification instead: its data model
  (section 3), the region adapter (4.2), the geometry partitioner (4.1), the content
  extraction client (4.3) and the coordinator (4.4, 5).
\<close>

subsection \<open>Data model\<close>

text \<open>Modelled from the spec: the records of section 3, with the fields it lists.\<close>

record Region =
  bbox :: BBox
  label :: string

text \<open>Modelled from the spec: section 3: a band, its ordinal position top to bottom, its full-width box and its member regions.\<close>

record Band =
  index :: nat
  bbox :: BBox
  member_regions :: "Region list"

text \<open>Modelled from the spec: section 3: the content extracted for one band; \<open>error\<close> is the optional failure descriptor.\<close>

record ExtractedContent =
  "text" :: string
  metadata :: "(string \<times> pyval) list"
  error :: "string option"

text \<open>Modelled from the spec: section 3: the result unit, one for each band.\<close>

record SegmentRecord =
  bbox :: BBox
  segment_type :: string
  content :: ExtractedContent
  confidence :: "real option"
  bbox_info :: "BBoxInfo list"

text \<open>Modelled from the spec: section 3: the output of one run of the pipeline.\<close>

record PipelineResult =
  segments :: "SegmentRecord list"
  total_segments :: nat
  status :: string

subsection \<open>Region classifier adapter\<close>

text \<open>
  Modelled from the spec: the output of the layout backend, one call giving the page
  dimensions and the raw entries; an entry may lack its bbox or its label.
\<close>

record RawRegion =
  raw_bbox :: "(real \<times> real \<times> real \<times> real) option"
  raw_label :: "string option"

text \<open>Modelled from the spec: section 4.4: the layout backend gives the page dimensions and the raw region list in one call.\<close>

record LayoutOutput =
  page_height :: int
  page_width :: int
  raw_regions :: "RawRegion list"

text \<open>Modelled from the spec: coercion of a coordinate to an integer, and clipping to
  \<open>[0, page_dimension]\<close>.\<close>

definition coerce :: "real \<Rightarrow> int" where
  "coerce v = (if 0 \<le> v then \<lfloor>v\<rfloor> else \<lceil>v\<rceil>)"

text \<open>Modelled from the spec: section 4.2: clipping of a coordinate to \<open>[0, page_dimension]\<close>.\<close>

definition clip :: "int \<Rightarrow> int \<Rightarrow> int" where
  "clip bound v = max 0 (min bound v)"

text \<open>
  Modelled from the spec: \<open>normalize\<close> of section 4.2. An entry missing its bbox or
  its label is dropped; the others have their coordinates coerced and clipped.
\<close>

definition normalize_entry :: "int \<Rightarrow> int \<Rightarrow> RawRegion \<Rightarrow> Region option" where
  "normalize_entry ph pw e =
     (case raw_bbox e of
        None \<Rightarrow> None
      | Some (a, b, c, d) \<Rightarrow>
        (case raw_label e of
           None \<Rightarrow> None
         | Some l \<Rightarrow>
           Some \<lparr>Region.bbox = \<lparr>x1 = clip pw (coerce a), y1 = clip ph (coerce b),
                                 x2 = clip pw (coerce c), y2 = clip ph (coerce d)\<rparr>,
                 label = l\<rparr>))"

text \<open>Modelled from the spec: section 4.2: \<open>normalize\<close> over the raw region list, dropped entries left out.\<close>

definition normalize :: "LayoutOutput \<Rightarrow> Region list" where
  "normalize out =
     List.map_filter (normalize_entry (page_height out) (page_width out)) (raw_regions out)"

subsection \<open>Geometry partitioner\<close>

text \<open>Modelled from the spec: regions are sorted by their top coordinate \<open>y1\<close>, ties
  broken by \<open>x1\<close> ascending.\<close>

definition region_le :: "Region \<Rightarrow> Region \<Rightarrow> bool" where
  "region_le r s =
     (y1 (Region.bbox r) < y1 (Region.bbox s)
      \<or> (y1 (Region.bbox r) = y1 (Region.bbox s) \<and> x1 (Region.bbox r) \<le> x1 (Region.bbox s)))"

text \<open>Modelled from the spec: section 4.1: insertion into a list sorted by \<open>y1\<close>, then \<open>x1\<close>.\<close>

fun insert_region :: "Region \<Rightarrow> Region list \<Rightarrow> Region list" where
  "insert_region r [] = [r]"
| "insert_region r (s # ss) = (if region_le r s then r # s # ss else s # insert_region r ss)"

text \<open>Modelled from the spec: section 4.1: the regions sorted by \<open>y1\<close>, then \<open>x1\<close>.\<close>

fun sort_regions :: "Region list \<Rightarrow> Region list" where
  "sort_regions [] = []"
| "sort_regions (r # rs) = insert_region r (sort_regions rs)"

text \<open>
  Modelled from the spec: the greedy growth of section 4.1 over the sorted regions
  still unassigned. \<open>t\<close> and \<open>b\<close> are the top and bottom of the band being grown,
  \<open>k\<close> the number of bands closed so far. The band is closed when its height has
  reached \<open>min_height\<close> and one more band fits under \<open>max_segments\<close>; the next band
  then takes the next region and starts where the closed band ends, since the bands
  must tile the page with no gap and no overlap (sections 4.1 and 8). Otherwise the
  next region is pulled into the band, whose bottom becomes the maximal \<open>y2\<close>; so
  once the budget is used up, all remaining regions are folded into the last band. The
  result is the list of vertical spans \<open>(top, bottom)\<close>.
\<close>

fun grow :: "int \<Rightarrow> int \<Rightarrow> int \<Rightarrow> int \<Rightarrow> int \<Rightarrow> Region list \<Rightarrow> (int \<times> int) list" where
  "grow H M k t b [] = [(t, b)]"
| "grow H M k t b (r # rs) =
     (if H \<le> b - t \<and> k + 2 \<le> M
      then (t, b) # grow H M (k + 1) b (max b (y2 (Region.bbox r))) rs
      else grow H M k t (max b (y2 (Region.bbox r))) rs)"

text \<open>Modelled from the spec: after all regions are consumed, if the bands do not reach
  \<open>page_height\<close>, the bottom edge of the final band is extended to it.\<close>

definition extend_last :: "int \<Rightarrow> (int \<times> int) list \<Rightarrow> (int \<times> int) list" where
  "extend_last ph spans =
     (if spans \<noteq> [] \<and> list_all (\<lambda>s. snd s < ph) spans
      then butlast spans @ [(fst (last spans), ph)]
      else spans)"

text \<open>Modelled from the spec: the vertical spans are contiguous (section 8): each one
  ends where the next begins.\<close>

fun contiguous :: "(int \<times> int) list \<Rightarrow> bool" where
  "contiguous [] = True"
| "contiguous [s] = True"
| "contiguous (s # u # us) = (snd s = fst u \<and> contiguous (u # us))"

text \<open>
  Modelled from the spec: a region is assigned to exactly one band, the one with the
  larger overlap, a tie going to the earlier band.
\<close>

definition overlap :: "int \<times> int \<Rightarrow> Region \<Rightarrow> int" where
  "overlap s r = max 0 (min (snd s) (y2 (Region.bbox r)) - max (fst s) (y1 (Region.bbox r)))"

text \<open>Modelled from the spec: section 4.1: the position of the largest overlap, the earliest one on a tie.\<close>

fun argmax_first :: "int list \<Rightarrow> nat" where
  "argmax_first [] = 0"
| "argmax_first [v] = 0"
| "argmax_first (v # w # ws) =
     (let j = argmax_first (w # ws) in if v < (w # ws) ! j then Suc j else 0)"

text \<open>Modelled from the spec: section 4.1: the one band a region is assigned to.\<close>

definition assign_band :: "(int \<times> int) list \<Rightarrow> Region \<Rightarrow> nat" where
  "assign_band spans r = argmax_first (map (\<lambda>s. overlap s r) spans)"

text \<open>Modelled from the spec: member regions carry coordinates translated to the
  band-local space; a band spans the full page width.\<close>

definition translate :: "int \<Rightarrow> Region \<Rightarrow> Region" where
  "translate t r =
     r\<lparr>Region.bbox := (Region.bbox r)\<lparr>y1 := y1 (Region.bbox r) - t,
                                       y2 := y2 (Region.bbox r) - t\<rparr>\<rparr>"

text \<open>Modelled from the spec: section 4.1: band number \<open>i\<close>, of full page width, with the regions assigned to it.\<close>

definition make_band :: "int \<Rightarrow> Region list \<Rightarrow> (int \<times> int) list \<Rightarrow> nat \<Rightarrow> Band" where
  "make_band pw regions spans i =
     \<lparr>index = i,
      Band.bbox = \<lparr>x1 = 0, y1 = fst (spans ! i), x2 = pw, y2 = snd (spans ! i)\<rparr>,
      member_regions =
        map (translate (fst (spans ! i))) (filter (\<lambda>r. assign_band spans r = i) regions)\<rparr>"

text \<open>
  Modelled from the spec: \<open>partition\<close> of section 4.1. With no region, exactly one band
  spanning the full page; otherwise the first band starts at the page top with the
  first region pulled in.
\<close>

definition partition :: "int \<Rightarrow> int \<Rightarrow> Region list \<Rightarrow> int \<Rightarrow> int \<Rightarrow> Band list" where
  "partition ph pw regions M H =
     (case sort_regions regions of
        [] \<Rightarrow>
          [\<lparr>index = 0, Band.bbox = \<lparr>x1 = 0, y1 = 0, x2 = pw, y2 = ph\<rparr>, member_regions = []\<rparr>]
      | r # rs \<Rightarrow>
          let spans = extend_last ph (grow H M 0 0 (y2 (Region.bbox r)) rs)
          in map (make_band pw (r # rs) spans) [0 ..< length spans])"

subsection \<open>Content extraction client\<close>

text \<open>Modelled from the spec: what one network call to the extraction backend comes to,
  and the crop of a band it carries.\<close>

datatype call_outcome = Response string "(string \<times> pyval) list"
  | Timeout | ConnectionFailed | NonSuccess nat | Malformed

text \<open>Modelled from the spec: section 4.4: the sub-image cropped for a band, the page and the box cut out of it.\<close>

record BandImage =
  page_bytes :: "nat list"
  crop_box :: BBox

text \<open>Modelled from the spec: section 4.3: the transient failures are the timeout and the connection failure.\<close>

definition transient :: "call_outcome \<Rightarrow> bool" where
  "transient c = (c = Timeout \<or> c = ConnectionFailed)"

text \<open>Modelled from the spec: section 4.3: a failed call gives empty text, empty metadata and a populated \<open>error\<close>.\<close>

definition failure_content :: "call_outcome \<Rightarrow> ExtractedContent" where
  "failure_content c =
     \<lparr>ExtractedContent.text = [], ExtractedContent.metadata = [],
      error = Some (case c of
                      Timeout \<Rightarrow> ''timeout''
                    | ConnectionFailed \<Rightarrow> ''connection error''
                    | NonSuccess code \<Rightarrow> ''non-success response''
                    | _ \<Rightarrow> ''malformed response body'')\<rparr>"

text \<open>Modelled from the spec: section 4.3: the response parsed into text and metadata, or the content of a failure.\<close>

definition content_of :: "call_outcome \<Rightarrow> ExtractedContent" where
  "content_of c =
     (case c of
        Response t m \<Rightarrow>
          \<lparr>ExtractedContent.text = t, ExtractedContent.metadata = m, error = None\<rparr>
      | _ \<Rightarrow> failure_content c)"

text \<open>
  Modelled from the spec: \<open>extract\<close> of section 4.3. It never raises; a transient
  failure of the first call is retried once, any other failure is not. The backend is
  a function of the crop and the number of the attempt.
\<close>

definition "extract" :: "(BandImage \<Rightarrow> nat \<Rightarrow> call_outcome) \<Rightarrow> BandImage \<Rightarrow> ExtractedContent" where
  "extract backend img =
     (if transient (backend img 0) then content_of (backend img 1)
      else content_of (backend img 0))"

subsection \<open>Pipeline coordinator\<close>

text \<open>
  Modelled from the spec: the collaborators of one run (section 6): whether the payload
  decodes, the layout backend (failing when unreachable or timed out), the extraction
  backend, and the two fields of a segment record the specification does not derive.
\<close>

datatype layout_failure = Unreachable | TimedOut

text \<open>Modelled from the spec: section 7: the categories of errors that abort a request.\<close>

datatype pipeline_error = InputError | UpstreamUnavailable layout_failure | InternalError

text \<open>Modelled from the spec: section 6: the collaborators of one run.\<close>

record Collaborators =
  decodable :: "nat list \<Rightarrow> bool"
  layout_backend :: "nat list \<Rightarrow> layout_failure + LayoutOutput"
  extraction_backend :: "BandImage \<Rightarrow> nat \<Rightarrow> call_outcome"
  segment_type_of :: "Band \<Rightarrow> string"
  confidence_of :: "ExtractedContent \<Rightarrow> real option"

text \<open>Modelled from the spec: section 4.4: for each band, the crop of the corresponding sub-image.\<close>

definition crop :: "nat list \<Rightarrow> Band \<Rightarrow> BandImage" where
  "crop image_bytes b = \<lparr>page_bytes = image_bytes, crop_box = Band.bbox b\<rparr>"

text \<open>
  Modelled from the spec: the gathering of section 5. \<open>order\<close> is the order in which
  the concurrent extraction calls complete, each named by the index of its band; a
  result is stored in a map under that key.
\<close>

definition store_result ::
  "(Band \<Rightarrow> ExtractedContent) \<Rightarrow> Band list \<Rightarrow> (nat \<rightharpoonup> ExtractedContent) \<Rightarrow> nat
     \<Rightarrow> (nat \<rightharpoonup> ExtractedContent)" where
  "store_result call bands results k =
     (case find (\<lambda>b. index b = k) bands of
        None \<Rightarrow> results
      | Some b \<Rightarrow> results(k \<mapsto> call b))"

text \<open>Modelled from the spec: section 5: the results map after all completions, in their order.\<close>

definition gather ::
  "(Band \<Rightarrow> ExtractedContent) \<Rightarrow> Band list \<Rightarrow> nat list \<Rightarrow> (nat \<rightharpoonup> ExtractedContent)" where
  "gather call bands order = foldl (store_result call bands) Map.empty order"

text \<open>Modelled from the spec: one segment record per band, from the band's geometry, its
  member regions and its extracted content.\<close>

definition merge :: "Collaborators \<Rightarrow> Band \<Rightarrow> ExtractedContent \<Rightarrow> SegmentRecord" where
  "merge env b c =
     \<lparr>SegmentRecord.bbox = Band.bbox b,
      SegmentRecord.segment_type = segment_type_of env b,
      SegmentRecord.content = c,
      SegmentRecord.confidence = confidence_of env c,
      SegmentRecord.bbox_info =
        map (\<lambda>r. \<lparr>BBoxInfo.bbox = Region.bbox r, type = label r\<rparr>) (member_regions b)\<rparr>"

text \<open>Modelled from the spec: the records are built in band order, each from the result
  stored under its band's index.\<close>

fun merge_all ::
  "Collaborators \<Rightarrow> (nat \<rightharpoonup> ExtractedContent) \<Rightarrow> Band list \<Rightarrow> SegmentRecord list option" where
  "merge_all env results [] = Some []"
| "merge_all env results (b # bs) =
     (case results (index b) of
        None \<Rightarrow> None
      | Some c \<Rightarrow>
        (case merge_all env results bs of
           None \<Rightarrow> None
         | Some segs \<Rightarrow> Some (merge env b c # segs)))"

text \<open>
  Modelled from the spec: the aggregate status of a run that got its layout: "success"
  if no band reported an error, "partial" otherwise (section 7 has every per-band
  error absorbed into a "partial" result).
\<close>

definition aggregate_status :: "ExtractedContent list \<Rightarrow> string" where
  "aggregate_status cs = (if list_all (\<lambda>c. error c = None) cs then ''success'' else ''partial'')"

text \<open>
  Modelled from the spec: \<open>run\<close> of section 4.4. Input errors are reported before any
  backend call; a failed layout call ends the run with an upstream-unavailable error
  and no segment records.
\<close>

definition run ::
  "Collaborators \<Rightarrow> nat list \<Rightarrow> nat list \<Rightarrow> int \<Rightarrow> int \<Rightarrow> pipeline_error + PipelineResult" where
  "run env order image_bytes M H =
     (if decodable env image_bytes \<and> 1 \<le> M \<and> 1 \<le> H then
        case layout_backend env image_bytes of
          Inl f \<Rightarrow> Inl (UpstreamUnavailable f)
        | Inr out \<Rightarrow>
            let bands = partition (page_height out) (page_width out) (normalize out) M H;
                call = (\<lambda>b. extract (extraction_backend env) (crop image_bytes b));
                results = gather call bands order
            in case merge_all env results bands of
                 None \<Rightarrow> Inl InternalError
               | Some segs \<Rightarrow>
                   Inr \<lparr>PipelineResult.segments = segs,
                        PipelineResult.total_segments = length segs,
                        PipelineResult.status =
                          aggregate_status (map SegmentRecord.content segs)\<rparr>
      else Inl InputError)"

text \<open>
  Modelled from the spec: how a run is presented to the handler that calls
  \<open>run_preprocessing_pipeline_with_splits\<close>. A failed run raises; the text of the
  exception names the category of the error. How the result of a successful run is
  laid out as \<open>(segment_image, segment_list)\<close> pairs is a parameter.
\<close>

definition raise_of :: "pipeline_error \<Rightarrow> py_exception" where
  "raise_of err =
     (case err of
        InputError \<Rightarrow> \<lparr>exc_class = ValueError, exc_str = ''input error''\<rparr>
      | UpstreamUnavailable Unreachable \<Rightarrow>
          \<lparr>exc_class = RuntimeError,
           exc_str = ''upstream unavailable: layout backend unreachable''\<rparr>
      | UpstreamUnavailable TimedOut \<Rightarrow>
          \<lparr>exc_class = RuntimeError,
           exc_str = ''upstream unavailable: layout backend timed out''\<rparr>
      | InternalError \<Rightarrow> \<lparr>exc_class = RuntimeError, exc_str = ''internal error''\<rparr>)"

text \<open>Modelled from the spec: the pipeline as the handler calls it, a run on the arguments of the call.\<close>

definition run_preprocessing_pipeline_with_splits ::
  "Collaborators \<Rightarrow> nat list \<Rightarrow> (PipelineResult \<Rightarrow> 'img pipeline_results) \<Rightarrow> 'img pipeline" where
  "run_preprocessing_pipeline_with_splits env order pairs args =
     (case run env order (image_data args) (max_segments args) (min_height args) of
        Inl err \<Rightarrow> Inl (raise_of err)
      | Inr res \<Rightarrow> Inr (pairs res))"

subsection \<open>Sample requests and pipeline outcomes\<close>

definition png_upload :: UploadFile where
  "png_upload = \<lparr>content_type = Some ''image/png'', filename = Some ''page.png'',
                  file_bytes = [137, 80, 78, 71]\<rparr>"

definition empty_upload :: UploadFile where
  "empty_upload = \<lparr>content_type = Some ''image/png'', filename = Some ''empty.png'',
                    file_bytes = []\<rparr>"

definition pdf_upload :: UploadFile where
  "pdf_upload = \<lparr>content_type = Some ''application/pdf'', filename = Some ''page.pdf'',
                  file_bytes = [37, 80, 68, 70]\<rparr>"

definition band_segment ::
  "int \<Rightarrow> int \<Rightarrow> string \<Rightarrow> (string \<times> pyval) list \<Rightarrow> DocumentSegment" where
  "band_segment ya yb txt md =
     \<lparr>DocumentSegment.bbox = \<lparr>x1 = 0, y1 = ya, x2 = 800, y2 = yb\<rparr>,
      DocumentSegment.segment_type = ''horizontal_segment'',
      DocumentSegment.content = \<lparr>SegmentContent.text = txt, SegmentContent.metadata = Some md\<rparr>,
      DocumentSegment.confidence = None,
      DocumentSegment.bbox_info = Some []\<rparr>"

text \<open>Three bands; the extraction of the middle one failed and its content says so.\<close>

definition three_bands :: "unit pipeline_results" where
  "three_bands =
     [((), [band_segment 0 300 ''Invoice 42'' []]),
      ((), [band_segment 300 600 [] [(''error'', PStr ''extraction timed out'')]]),
      ((), [band_segment 600 1000 ''Total: 10'' []])]"

definition three_band_pipeline :: "unit pipeline" where
  "three_band_pipeline args = Inr three_bands"

text \<open>A library instance for the samples, which hold no numeral strings and no label that
  is not a string: neither parameter is consulted on them.\<close>

definition sample_lib :: pylib where
  "sample_lib = \<lparr>int_of_str = (\<lambda>s. None), str_of_nonstr = (\<lambda>v. None)\<rparr>"

definition page_100 :: "nat list \<Rightarrow> py_exception + rgb_image" where
  "page_100 bytes = Inr \<lparr>width = 100, height = 100\<rparr>"

definition layout_result :: "pyval list \<Rightarrow> rgb_image \<Rightarrow> py_exception + pyval" where
  "layout_result entries img =
     Inr (PDict [(''res'', PDict [(''parsing_res_list'', PList entries)])])"

definition entry_ok :: pyval where
  "entry_ok = PDict [(''block_bbox'', PList [PInt 10, PFloat (Finite 20.7), PInt 90, PInt 80]),
                     (''block_label'', PStr ''text'')]"

definition entry_no_bbox :: pyval where
  "entry_no_bbox = PDict [(''block_label'', PStr ''table'')]"

definition entry_no_label :: pyval where
  "entry_no_label = PDict [(''block_bbox'', PList [PInt 0, PInt 0, PInt 10, PInt 10])]"

definition entry_off_page :: pyval where
  "entry_off_page = PDict [(''block_bbox'', PList [PInt 0, PInt 0, PInt 5000, PInt 5000]),
                           (''block_label'', PStr ''figure'')]"

definition entry_negative :: pyval where
  "entry_negative = PDict [(''block_bbox'', PList [PInt (- 5), PInt 0, PInt 10, PInt 10]),
                           (''block_label'', PStr ''text'')]"

text \<open>
  A page of 1000 by 800 pixels with three regions, one below the other; the layout
  backend also returns an entry without a label. The extraction call for the band that
  starts at 300 times out at both attempts.
\<close>

definition raw_region :: "real \<Rightarrow> real \<Rightarrow> RawRegion" where
  "raw_region a b = \<lparr>raw_bbox = Some (0, a, 800, b), raw_label = Some ''text''\<rparr>"

definition sample_layout :: LayoutOutput where
  "sample_layout =
     \<lparr>page_height = 1000, page_width = 800,
      raw_regions = [raw_region 600 990.5, raw_region 0 300,
                     \<lparr>raw_bbox = Some (0, 10, 20, 30), raw_label = None\<rparr>,
                     raw_region 300 600]\<rparr>"

text \<open>The scenario of section 8 of the specification: three regions on a page of height
  1000, to be cut into at most two bands of height at least 50.\<close>

definition scenario_regions :: "Region list" where
  "scenario_regions =
     [\<lparr>Region.bbox = \<lparr>x1 = 0, y1 = 0, x2 = 800, y2 = 30\<rparr>, label = ''text''\<rparr>,
      \<lparr>Region.bbox = \<lparr>x1 = 0, y1 = 40, x2 = 800, y2 = 900\<rparr>, label = ''table''\<rparr>,
      \<lparr>Region.bbox = \<lparr>x1 = 0, y1 = 920, x2 = 800, y2 = 990\<rparr>, label = ''text''\<rparr>]"

definition sample_extraction :: "BandImage \<Rightarrow> nat \<Rightarrow> call_outcome" where
  "sample_extraction img attempt =
     (if y1 (crop_box img) = 300 then Timeout else Response ''some text'' [])"

definition sample_env :: Collaborators where
  "sample_env =
     \<lparr>decodable = (\<lambda>bytes. bytes \<noteq> []),
      layout_backend = (\<lambda>bytes. Inr sample_layout),
      extraction_backend = sample_extraction,
      segment_type_of = (\<lambda>b. ''horizontal_segment''),
      confidence_of = (\<lambda>c. None)\<rparr>"

definition layout_down_env :: Collaborators where
  "layout_down_env = sample_env\<lparr>layout_backend := (\<lambda>bytes. Inl TimedOut)\<rparr>"

definition no_pairs :: "PipelineResult \<Rightarrow> unit pipeline_results" where
  "no_pairs res = []"

section \<open>Properties of the preprocessing handlers\<close>

lemma extend_segments_concat:
  "extend_segments segs results = segs @ concat (map snd results)"
  by (induction segs results rule: extend_segments.induct) simp_all

lemma process_document_Inr:
  assumes "snd (process_document env pl upload max_segs min_h t0 t1) = Inr r"
  shows "\<exists>results. pl \<lparr>image_data = file_bytes upload,
                    ppstructure_url = PPSTRUCTURE_URL env,
                    paddlevl_url = PADDLEVL_URL env,
                    max_segments = max_segs,
                    min_height = min_h\<rparr> = Inr results
         \<and> t0 \<le> t1
         \<and> r = \<lparr>ProcessResponse.segments = concat (map snd results),
                 ProcessResponse.total_segments = int (length (concat (map snd results))),
                 ProcessResponse.elapsed_ms = (t1 - t0) * 1000, ProcessResponse.status = ''success''\<rparr>"
  using assms
  by (auto simp: process_document_def invalid_file_type_def ProcessResponse_init_def Let_def extend_segments_concat
      split: if_splits sum.splits option.splits)

text \<open>
  C10. The health endpoint of the preprocessing service returns status "healthy" and
  service "Preprocessing" in every state of the system: it reads no state.
\<close>

theorem health_check_always_healthy:
  "HealthResponse.status (health_check s) = ''healthy''
   \<and> service (health_check s) = ''Preprocessing''"
  by (simp add: health_check_def)

text \<open>
  C7. In every response that \<open>process_document\<close> returns, \<open>total_segments\<close> is the
  number of elements of \<open>segments\<close>.
\<close>

theorem total_segments_is_length:
  assumes "snd (process_document env pl upload max_segs min_h t0 t1) = Inr r"
  shows "ProcessResponse.total_segments r = int (length (ProcessResponse.segments r))"
  using process_document_Inr [OF assms] by auto

theorem total_segments_is_length_witness:
  "snd (process_document Map.empty three_band_pipeline png_upload 8 50 0 1)
     = Inr \<lparr>ProcessResponse.segments = concat (map snd three_bands), ProcessResponse.total_segments = 3,
            ProcessResponse.elapsed_ms = 1000, ProcessResponse.status = ''success''\<rparr>
   \<and> ProcessResponse.total_segments \<lparr>ProcessResponse.segments = concat (map snd three_bands), ProcessResponse.total_segments = 3,
            ProcessResponse.elapsed_ms = 1000, ProcessResponse.status = ''success''\<rparr>
     = int (length (ProcessResponse.segments \<lparr>ProcessResponse.segments = concat (map snd three_bands), ProcessResponse.total_segments = 3,
            ProcessResponse.elapsed_ms = 1000, ProcessResponse.status = ''success''\<rparr>))"
proof -
  have run: "snd (process_document Map.empty three_band_pipeline png_upload 8 50 0 1)
     = Inr \<lparr>ProcessResponse.segments = concat (map snd three_bands), ProcessResponse.total_segments = 3,
            ProcessResponse.elapsed_ms = 1000, ProcessResponse.status = ''success''\<rparr>"
    by (simp add: process_document_def invalid_file_type_def three_band_pipeline_def png_upload_def
        ProcessResponse_init_def extend_segments_concat three_bands_def)
  show ?thesis using run total_segments_is_length [OF run] by simp
qed

text \<open>
  C1, as stated, fails: with three bands of which the middle one carries an error
  marker, the response has three segments and the marker, and its status is
  "success", not "partial".
\<close>

theorem one_failed_band_status_counterexample:
  "snd (process_document Map.empty three_band_pipeline png_upload 8 50 0 1)
     = Inr \<lparr>ProcessResponse.segments = [band_segment 0 300 ''Invoice 42'' [],
                         band_segment 300 600 [] [(''error'', PStr ''extraction timed out'')],
                         band_segment 600 1000 ''Total: 10'' []],
            ProcessResponse.total_segments = 3, ProcessResponse.elapsed_ms = 1000, ProcessResponse.status = ''success''\<rparr>
   \<and> ProcessResponse.status
        (projr (snd (process_document Map.empty three_band_pipeline png_upload 8 50 0 1)))
       \<noteq> ''partial''"
  by (simp add: process_document_def invalid_file_type_def three_band_pipeline_def png_upload_def
      ProcessResponse_init_def extend_segments_concat three_bands_def)

text \<open>
  C1, amended. Whenever \<open>process_document\<close> returns a response, its status is
  "success", whatever the contents of the segments; the segments are those of the
  pipeline's bands, unchanged, in the pipeline's order.
\<close>

theorem response_status_always_success:
  assumes "snd (process_document env pl upload max_segs min_h t0 t1) = Inr r"
  shows "ProcessResponse.status r = ''success''
         \<and> (\<exists>results. pl \<lparr>image_data = file_bytes upload,
                             ppstructure_url = PPSTRUCTURE_URL env,
                             paddlevl_url = PADDLEVL_URL env,
                             max_segments = max_segs,
                             min_height = min_h\<rparr> = Inr results
                        \<and> ProcessResponse.segments r = concat (map snd results))"
  using process_document_Inr [OF assms] by auto

theorem response_status_always_success_witness:
  "snd (process_document Map.empty three_band_pipeline png_upload 8 50 0 1)
     = Inr \<lparr>ProcessResponse.segments = concat (map snd three_bands), ProcessResponse.total_segments = 3,
            ProcessResponse.elapsed_ms = 1000, ProcessResponse.status = ''success''\<rparr>
   \<and> ProcessResponse.status \<lparr>ProcessResponse.segments = concat (map snd three_bands), ProcessResponse.total_segments = 3,
            ProcessResponse.elapsed_ms = 1000, ProcessResponse.status = ''success''\<rparr> = ''success''"
proof -
  have run: "snd (process_document Map.empty three_band_pipeline png_upload 8 50 0 1)
     = Inr \<lparr>ProcessResponse.segments = concat (map snd three_bands), ProcessResponse.total_segments = 3,
            ProcessResponse.elapsed_ms = 1000, ProcessResponse.status = ''success''\<rparr>"
    by (simp add: process_document_def invalid_file_type_def three_band_pipeline_def png_upload_def
        ProcessResponse_init_def extend_segments_concat three_bands_def)
  show ?thesis using run response_status_always_success [OF run] by simp
qed

text \<open>
  C8. Two calls of \<open>process_document\<close> with the same environment, the same pipeline
  (the same stubbed backends), the same upload and the same bounds do the same things
  and end the same way, whatever the (monotonic) clock reads: the same exception, or
  responses that differ in \<open>elapsed_ms\<close> at most.
\<close>

theorem process_document_deterministic:
  assumes "t0 \<le> t1" and "t0' \<le> t1'"
  shows "fst (process_document env pl upload max_segs min_h t0 t1)
           = fst (process_document env pl upload max_segs min_h t0' t1')
         \<and> map_sum id (\<lambda>r. r\<lparr>ProcessResponse.elapsed_ms := 0\<rparr>)
             (snd (process_document env pl upload max_segs min_h t0 t1))
           = map_sum id (\<lambda>r. r\<lparr>ProcessResponse.elapsed_ms := 0\<rparr>)
             (snd (process_document env pl upload max_segs min_h t0' t1'))"
  using assms
  by (auto simp: process_document_def invalid_file_type_def ProcessResponse_init_def Let_def
      split: sum.splits option.splits)

theorem process_document_deterministic_witness:
  "(0::real) \<le> 1 \<and> (5::real) \<le> 7
   \<and> fst (process_document Map.empty three_band_pipeline png_upload 8 50 0 1)
       = fst (process_document Map.empty three_band_pipeline png_upload 8 50 5 7)
   \<and> map_sum id (\<lambda>r. r\<lparr>ProcessResponse.elapsed_ms := 0\<rparr>)
         (snd (process_document Map.empty three_band_pipeline png_upload 8 50 0 1))
       = map_sum id (\<lambda>r. r\<lparr>ProcessResponse.elapsed_ms := 0\<rparr>)
         (snd (process_document Map.empty three_band_pipeline png_upload 8 50 5 7))
   \<and> snd (process_document Map.empty three_band_pipeline png_upload 8 50 0 1)
       \<noteq> snd (process_document Map.empty three_band_pipeline png_upload 8 50 5 7)"
proof -
  have a: "(0::real) \<le> 1" and b: "(5::real) \<le> 7" by simp_all
  have differ: "snd (process_document Map.empty three_band_pipeline png_upload 8 50 0 1)
       \<noteq> snd (process_document Map.empty three_band_pipeline png_upload 8 50 5 7)"
    by (simp add: process_document_def invalid_file_type_def three_band_pipeline_def png_upload_def
        ProcessResponse_init_def Let_def)
  show ?thesis
    using a b differ
      process_document_deterministic [OF a b, of Map.empty three_band_pipeline png_upload 8 50]
    by simp
qed

section \<open>Properties of the layout handler\<close>

lemma map_int_Inr:
  "map_int lib vs = Inr js \<Longrightarrow> list_all2 (\<lambda>v j. py_int lib v = Inr j) vs js"
  by (induction vs arbitrary: js) (auto split: sum.splits)

lemma unpack4_Inr:
  assumes "unpack4 lib vs = Inr (a, b, c, d)"
  shows "\<exists>v1 v2 v3 v4. vs = [v1, v2, v3, v4] \<and> py_int lib v1 = Inr a \<and> py_int lib v2 = Inr b
           \<and> py_int lib v3 = Inr c \<and> py_int lib v4 = Inr d"
proof -
  from assms have m: "map_int lib (take 5 vs) = Inr [a, b, c, d]"
    by (auto simp: unpack4_def split: sum.splits list.splits)
  from map_int_Inr [OF m]
  have l: "list_all2 (\<lambda>v j. py_int lib v = Inr j) (take 5 vs) [a, b, c, d]" .
  then have "length (take 5 vs) = 4" by (auto dest: list_all2_lengthD)
  then have "length vs = 4" by (auto simp: min_def split: if_splits)
  then have t: "take 5 vs = vs" by simp
  from l t show ?thesis by (auto simp: list_all2_Cons2)
qed

lemma detection_try_Inr:
  assumes "detection_try lib obj = Inr d"
  shows "\<exists>kvs bb v1 v2 v3 v4.
           obj = PDict kvs \<and> map_of kvs ''block_bbox'' = Some bb
           \<and> py_iter bb = Inr [v1, v2, v3, v4]
           \<and> py_int lib v1 = Inr (x1 (Detection.bbox d))
           \<and> py_int lib v2 = Inr (y1 (Detection.bbox d))
           \<and> py_int lib v3 = Inr (x2 (Detection.bbox d))
           \<and> py_int lib v4 = Inr (y2 (Detection.bbox d))
           \<and> 0 \<le> x1 (Detection.bbox d) \<and> 0 \<le> y1 (Detection.bbox d)
           \<and> 0 \<le> x2 (Detection.bbox d) \<and> 0 \<le> y2 (Detection.bbox d)"
proof -
  from assms obtain kvs where obj: "obj = PDict kvs"
    by (cases obj) (auto simp: detection_try_def)
  from assms obj obtain bb where bb: "map_of kvs ''block_bbox'' = Some bb"
    by (auto simp: detection_try_def split: option.splits)
  from assms obj bb obtain vs where vs: "py_iter bb = Inr vs"
    by (auto simp: detection_try_def split: sum.splits)
  from assms obj bb vs obtain a b c e where u: "unpack4 lib vs = Inr (a, b, c, e)"
    by (auto simp: detection_try_def split: sum.splits)
  from assms obj bb vs u obtain box where box: "BBox_init a b c e = Inr box"
    by (auto simp: detection_try_def split: sum.splits)
  from assms obj bb vs u box have d: "Detection.bbox d = box"
    by (auto simp: detection_try_def Detection_init_def
        split: sum.splits pyval.splits option.splits)
  from box have b2: "box = \<lparr>x1 = a, y1 = b, x2 = c, y2 = e\<rparr>
      \<and> 0 \<le> a \<and> 0 \<le> b \<and> 0 \<le> c \<and> 0 \<le> e"
    by (auto simp: BBox_init_def split: if_splits)
  from unpack4_Inr [OF u] obj bb vs d b2 show ?thesis by auto
qed

lemma collect_detections_Inr:
  "snd (collect_detections lib dets objs) = Inr ds \<Longrightarrow>
   ds = dets @ List.map_filter
          (\<lambda>obj. case detection_try lib obj of Inr d \<Rightarrow> Some d | Inl e \<Rightarrow> None) objs"
  by (induction lib dets objs arbitrary: ds rule: collect_detections.induct)
     (auto simp: List.map_filter_simps split: sum.splits if_splits prod.splits)

lemma analyze_document_Inr:
  assumes "snd (analyze_document lib decode (Some predict) upload t0 t1) = Inr r"
  shows "\<exists>img result objs.
           decode (file_bytes upload) = Inr img \<and> predict img = Inr result
           \<and> layout_entries result = Inr objs
           \<and> snd (collect_detections lib [] objs) = Inr (detections r)"
  using assms
  by (auto simp: analyze_document_def analyze_body_def AnalyzeResponse_init_def
      split: if_splits sum.splits prod.splits)

text \<open>
  C3, as stated, fails: an entry that has a bbox and no label is not dropped. It is
  returned with the label "unknown".
\<close>

theorem missing_label_kept_counterexample:
  "analyze_document sample_lib page_100 (Some (layout_result [entry_no_label])) png_upload 0 1
     = ([Log INFO, ReadUpload, Log INFO, Log INFO],
        Inr \<lparr>detections =
               [\<lparr>Detection.bbox = \<lparr>x1 = 0, y1 = 0, x2 = 10, y2 = 10\<rparr>,
                 cls = ''unknown'', Detection.confidence = None\<rparr>],
             elapsed_ms = 1000\<rparr>)"
  by (simp add: analyze_document_def analyze_body_def invalid_file_type_def png_upload_def
      page_100_def layout_result_def layout_entries_def entry_no_label_def detection_try_def
      unpack4_def BBox_init_def Detection_init_def AnalyzeResponse_init_def)

text \<open>
  C3, amended. An entry without \<open>block_bbox\<close> is dropped with a warning and the loop
  goes on with the rest as if the entry were not there. An entry without
  \<open>block_label\<close> is treated exactly as if its label were "unknown". When the loop
  ends without an exception, the detections returned are, in order, those of the
  entries whose \<open>try\<close> body succeeded, and no others.
\<close>

theorem missing_bbox_dropped_missing_label_unknown:
  "(map_of kvs ''block_bbox'' = None \<longrightarrow>
      collect_detections lib dets (PDict kvs # rest)
        = (Log WARNING # fst (collect_detections lib dets rest),
           snd (collect_detections lib dets rest)))
   \<and> (map_of kvs' ''block_label'' = None \<longrightarrow>
      detection_try lib (PDict kvs')
        = detection_try lib (PDict (kvs' @ [(''block_label'', PStr ''unknown'')])))
   \<and> (snd (collect_detections lib [] objs) = Inr ds \<longrightarrow>
      ds = List.map_filter
             (\<lambda>obj. case detection_try lib obj of Inr d \<Rightarrow> Some d | Inl e \<Rightarrow> None) objs)"
proof (intro conjI impI)
  assume "map_of kvs ''block_bbox'' = None"
  then have "detection_try lib (PDict kvs)
               = Inl \<lparr>exc_class = KeyError, exc_str = ''block_bbox''\<rparr>"
    by (simp add: detection_try_def)
  then show "collect_detections lib dets (PDict kvs # rest)
        = (Log WARNING # fst (collect_detections lib dets rest),
           snd (collect_detections lib dets rest))"
    by (simp add: caught_def split: prod.splits)
next
  assume none: "map_of kvs' ''block_label'' = None"
  have bb: "map_of (kvs' @ [(''block_label'', PStr ''unknown'')]) ''block_bbox''
              = map_of kvs' ''block_bbox''"
    by (simp add: map_add_def split: option.splits)
  have lbl: "map_of (kvs' @ [(''block_label'', PStr ''unknown'')]) ''block_label''
              = Some (PStr ''unknown'')"
    using none by (simp add: map_add_def)
  show "detection_try lib (PDict kvs')
        = detection_try lib (PDict (kvs' @ [(''block_label'', PStr ''unknown'')]))"
    unfolding detection_try_def py_getitem.simps py_get.simps bb lbl none
    by (simp split: sum.splits option.splits prod.splits)
next
  assume "snd (collect_detections lib [] objs) = Inr ds"
  from collect_detections_Inr [OF this]
  show "ds = List.map_filter
             (\<lambda>obj. case detection_try lib obj of Inr d \<Rightarrow> Some d | Inl e \<Rightarrow> None) objs"
    by simp
qed

theorem missing_bbox_dropped_missing_label_unknown_witness:
  "map_of [(''block_label'', PStr ''table'')] ''block_bbox'' = None
   \<and> collect_detections sample_lib [] (PDict [(''block_label'', PStr ''table'')] # [entry_no_label])
       = ([Log WARNING],
          Inr [\<lparr>Detection.bbox = \<lparr>x1 = 0, y1 = 0, x2 = 10, y2 = 10\<rparr>,
                cls = ''unknown'', Detection.confidence = None\<rparr>])
   \<and> map_of [(''block_bbox'', PList [PInt 0, PInt 0, PInt 10, PInt 10])] ''block_label'' = None
   \<and> detection_try sample_lib
        (PDict ([(''block_bbox'', PList [PInt 0, PInt 0, PInt 10, PInt 10])]
                @ [(''block_label'', PStr ''unknown'')]))
       = Inr \<lparr>Detection.bbox = \<lparr>x1 = 0, y1 = 0, x2 = 10, y2 = 10\<rparr>,
              cls = ''unknown'', Detection.confidence = None\<rparr>
   \<and> snd (collect_detections sample_lib [] [entry_no_bbox, entry_ok, entry_negative])
       = Inr [\<lparr>Detection.bbox = \<lparr>x1 = 10, y1 = 20, x2 = 90, y2 = 80\<rparr>,
                cls = ''text'', Detection.confidence = None\<rparr>]
   \<and> [\<lparr>Detection.bbox = \<lparr>x1 = 10, y1 = 20, x2 = 90, y2 = 80\<rparr>,
         cls = ''text'', Detection.confidence = None\<rparr>]
       = List.map_filter
           (\<lambda>obj. case detection_try sample_lib obj of Inr d \<Rightarrow> Some d | Inl e \<Rightarrow> None)
           [entry_no_bbox, entry_ok, entry_negative]"
proof -
  have no_label: "detection_try sample_lib entry_no_label
      = Inr \<lparr>Detection.bbox = \<lparr>x1 = 0, y1 = 0, x2 = 10, y2 = 10\<rparr>,
             cls = ''unknown'', Detection.confidence = None\<rparr>"
    by (simp add: entry_no_label_def detection_try_def unpack4_def BBox_init_def
        Detection_init_def)
  have ok: "detection_try sample_lib entry_ok
      = Inr \<lparr>Detection.bbox = \<lparr>x1 = 10, y1 = 20, x2 = 90, y2 = 80\<rparr>,
             cls = ''text'', Detection.confidence = None\<rparr>"
    by (simp add: entry_ok_def detection_try_def unpack4_def BBox_init_def
        Detection_init_def)
  have neg: "detection_try sample_lib entry_negative
      = Inl \<lparr>exc_class = ValidationError, exc_str = ''validation error for BBox''\<rparr>"
    by (simp add: entry_negative_def detection_try_def unpack4_def BBox_init_def)
  have nobb: "detection_try sample_lib entry_no_bbox
      = Inl \<lparr>exc_class = KeyError, exc_str = ''block_bbox''\<rparr>"
    by (simp add: entry_no_bbox_def detection_try_def)
  have run: "snd (collect_detections sample_lib [] [entry_no_bbox, entry_ok, entry_negative])
       = Inr [\<lparr>Detection.bbox = \<lparr>x1 = 10, y1 = 20, x2 = 90, y2 = 80\<rparr>,
                cls = ''text'', Detection.confidence = None\<rparr>]"
    by (simp add: ok neg nobb caught_def)
  have rest: "collect_detections sample_lib [] [entry_no_label]
       = ([], Inr [\<lparr>Detection.bbox = \<lparr>x1 = 0, y1 = 0, x2 = 10, y2 = 10\<rparr>,
                cls = ''unknown'', Detection.confidence = None\<rparr>])"
    by (simp add: no_label)
  have a: "map_of [(''block_label'', PStr ''table'')] ''block_bbox'' = None" by simp
  have b: "map_of [(''block_bbox'', PList [PInt 0, PInt 0, PInt 10, PInt 10])] ''block_label''
             = None" by simp
  note inst = missing_bbox_dropped_missing_label_unknown
      [of "[(''block_label'', PStr ''table'')]" sample_lib "[]" "[entry_no_label]"
          "[(''block_bbox'', PList [PInt 0, PInt 0, PInt 10, PInt 10])]"
          "[entry_no_bbox, entry_ok, entry_negative]"
          "[\<lparr>Detection.bbox = \<lparr>x1 = 10, y1 = 20, x2 = 90, y2 = 80\<rparr>,
             cls = ''text'', Detection.confidence = None\<rparr>]"]
  from inst a have c1: "collect_detections sample_lib []
         (PDict [(''block_label'', PStr ''table'')] # [entry_no_label])
       = ([Log WARNING],
          Inr [\<lparr>Detection.bbox = \<lparr>x1 = 0, y1 = 0, x2 = 10, y2 = 10\<rparr>,
                cls = ''unknown'', Detection.confidence = None\<rparr>])"
    by (simp only: rest fst_conv snd_conv)
  from inst b no_label have c2: "detection_try sample_lib
        (PDict ([(''block_bbox'', PList [PInt 0, PInt 0, PInt 10, PInt 10])]
                @ [(''block_label'', PStr ''unknown'')]))
       = Inr \<lparr>Detection.bbox = \<lparr>x1 = 0, y1 = 0, x2 = 10, y2 = 10\<rparr>,
              cls = ''unknown'', Detection.confidence = None\<rparr>"
    by (simp only: entry_no_label_def)
  from inst run have c3: "[\<lparr>Detection.bbox = \<lparr>x1 = 10, y1 = 20, x2 = 90, y2 = 80\<rparr>,
         cls = ''text'', Detection.confidence = None\<rparr>]
       = List.map_filter
           (\<lambda>obj. case detection_try sample_lib obj of Inr d \<Rightarrow> Some d | Inl e \<Rightarrow> None)
           [entry_no_bbox, entry_ok, entry_negative]"
    by (simp only:)
  from a b c1 c2 run c3 show ?thesis by (simp only: simp_thms)
qed

text \<open>
  C4, as stated, fails: on a page of 100 by 100 pixels an entry reaching to 5000 is
  returned as it is, not clipped to the page, and an entry with a negative coordinate
  is dropped, not clipped to 0.
\<close>

theorem bbox_not_clipped_counterexample:
  "page_100 (file_bytes png_upload) = Inr \<lparr>width = 100, height = 100\<rparr>
   \<and> snd (analyze_document sample_lib page_100
            (Some (layout_result [entry_off_page, entry_negative])) png_upload 0 1)
     = Inr \<lparr>detections =
               [\<lparr>Detection.bbox = \<lparr>x1 = 0, y1 = 0, x2 = 5000, y2 = 5000\<rparr>,
                 cls = ''figure'', Detection.confidence = None\<rparr>],
             elapsed_ms = 1000\<rparr>"
  by (simp add: analyze_document_def analyze_body_def invalid_file_type_def png_upload_def
      page_100_def layout_result_def layout_entries_def entry_off_page_def entry_negative_def
      detection_try_def unpack4_def BBox_init_def Detection_init_def AnalyzeResponse_init_def
      caught_def)

text \<open>
  C4, amended. Every detection of a response of \<open>analyze_document\<close> comes from a
  layout entry whose \<open>block_bbox\<close> holds exactly four values; its coordinates are the
  results of \<open>int\<close> on these values (a float is truncated toward zero) and none is
  negative. Nothing bounds them from above.
\<close>

theorem kept_bbox_is_integer_nonnegative:
  assumes "snd (analyze_document lib decode (Some predict) upload t0 t1) = Inr r"
    and "d \<in> set (detections r)"
  shows "\<exists>img result objs kvs bb v1 v2 v3 v4.
           decode (file_bytes upload) = Inr img \<and> predict img = Inr result
           \<and> layout_entries result = Inr objs
           \<and> PDict kvs \<in> set objs \<and> map_of kvs ''block_bbox'' = Some bb
           \<and> py_iter bb = Inr [v1, v2, v3, v4]
           \<and> py_int lib v1 = Inr (x1 (Detection.bbox d))
           \<and> py_int lib v2 = Inr (y1 (Detection.bbox d))
           \<and> py_int lib v3 = Inr (x2 (Detection.bbox d))
           \<and> py_int lib v4 = Inr (y2 (Detection.bbox d))
           \<and> 0 \<le> x1 (Detection.bbox d) \<and> 0 \<le> y1 (Detection.bbox d)
           \<and> 0 \<le> x2 (Detection.bbox d) \<and> 0 \<le> y2 (Detection.bbox d)"
proof -
  from analyze_document_Inr [OF assms(1)] obtain img result objs where
    src: "decode (file_bytes upload) = Inr img" "predict img = Inr result"
         "layout_entries result = Inr objs"
    and run: "snd (collect_detections lib [] objs) = Inr (detections r)"
    by blast
  from collect_detections_Inr [OF run] assms(2)
  obtain obj where obj: "obj \<in> set objs" "detection_try lib obj = Inr d"
    by (auto simp: List.map_filter_def split: sum.splits)
  from detection_try_Inr [OF obj(2)] obj(1) src show ?thesis by blast
qed

theorem kept_bbox_is_integer_nonnegative_witness:
  "snd (analyze_document sample_lib page_100 (Some (layout_result [entry_ok])) png_upload 0 1)
     = Inr \<lparr>detections =
               [\<lparr>Detection.bbox = \<lparr>x1 = 10, y1 = 20, x2 = 90, y2 = 80\<rparr>,
                 cls = ''text'', Detection.confidence = None\<rparr>],
             elapsed_ms = 1000\<rparr>
   \<and> \<lparr>Detection.bbox = \<lparr>x1 = 10, y1 = 20, x2 = 90, y2 = 80\<rparr>,
        cls = ''text'', Detection.confidence = None\<rparr>
       \<in> set (detections \<lparr>detections =
               [\<lparr>Detection.bbox = \<lparr>x1 = 10, y1 = 20, x2 = 90, y2 = 80\<rparr>,
                 cls = ''text'', Detection.confidence = None\<rparr>],
             elapsed_ms = 1000\<rparr>)
   \<and> py_int sample_lib (PFloat (Finite 20.7)) = Inr 20"
proof -
  have run: "snd (analyze_document sample_lib page_100 (Some (layout_result [entry_ok]))
                    png_upload 0 1)
     = Inr \<lparr>detections =
               [\<lparr>Detection.bbox = \<lparr>x1 = 10, y1 = 20, x2 = 90, y2 = 80\<rparr>,
                 cls = ''text'', Detection.confidence = None\<rparr>],
             elapsed_ms = 1000\<rparr>"
    by (simp add: analyze_document_def analyze_body_def invalid_file_type_def png_upload_def
        page_100_def layout_result_def layout_entries_def entry_ok_def
        detection_try_def unpack4_def BBox_init_def Detection_init_def AnalyzeResponse_init_def)
  have mem: "\<lparr>Detection.bbox = \<lparr>x1 = 10, y1 = 20, x2 = 90, y2 = 80\<rparr>,
        cls = ''text'', Detection.confidence = None\<rparr>
       \<in> set (detections \<lparr>detections =
               [\<lparr>Detection.bbox = \<lparr>x1 = 10, y1 = 20, x2 = 90, y2 = 80\<rparr>,
                 cls = ''text'', Detection.confidence = None\<rparr>],
             elapsed_ms = 1000\<rparr>)"
    by simp
  from kept_bbox_is_integer_nonnegative [OF run mem] run mem show ?thesis by simp
qed


section \<open>Properties of the specified coordinator\<close>





lemma set_insert_region: "set (insert_region r rs) = insert r (set rs)"
  by (induction rs) auto

lemma insert_region_sorted:
  "sorted (map (\<lambda>r. y1 (Region.bbox r)) rs) \<Longrightarrow>
   sorted (map (\<lambda>r. y1 (Region.bbox r)) (insert_region r rs))"
  by (induction rs) (auto simp: region_le_def set_insert_region)

lemma sort_regions_sorted: "sorted (map (\<lambda>r. y1 (Region.bbox r)) (sort_regions rs))"
  by (induction rs) (auto simp: insert_region_sorted)

lemma set_sort_regions: "set (sort_regions rs) = set rs"
  by (induction rs) (auto simp: set_insert_region)

lemma grow_nonempty: "grow H M k t b rs \<noteq> []"
  by (induction H M k t b rs rule: grow.induct) auto

lemma contiguous_Cons:
  "xs \<noteq> [] \<Longrightarrow> contiguous (s # xs) = (snd s = fst (hd xs) \<and> contiguous xs)"
  by (cases xs) auto

text \<open>The spans grown from a band with \<open>t \<le> b\<close>: they start at \<open>t\<close>, each one ends
  where the next begins, none has a negative height, and tops and bottoms ascend.\<close>

lemma grow_spans:
  "t \<le> b \<Longrightarrow>
   contiguous (grow H M k t b rs) \<and> fst (hd (grow H M k t b rs)) = t
   \<and> sorted (map fst (grow H M k t b rs))
   \<and> (\<forall>s \<in> set (grow H M k t b rs).
         fst s \<le> snd s \<and> t \<le> fst s \<and> snd s \<le> snd (last (grow H M k t b rs)))
   \<and> b \<le> snd (last (grow H M k t b rs))"
proof (induction H M k t b rs rule: grow.induct)
  case (1 H M k t b)
  then show ?case by simp
next
  case (2 H M k t b r rs)
  show ?case
  proof (cases "H \<le> b - t \<and> k + 2 \<le> M")
    case True
    let ?tail = "grow H M (k + 1) b (max b (y2 (Region.bbox r))) rs"
    from True have eq: "grow H M k t b (r # rs) = (t, b) # ?tail"
      by simp
    have ne: "?tail \<noteq> []" by (rule grow_nonempty)
    have "b \<le> max b (y2 (Region.bbox r))" by simp
    from "2.IH"(1) [OF True this]
    have ih: "contiguous ?tail" "fst (hd ?tail) = b" "sorted (map fst ?tail)"
      "\<forall>s \<in> set ?tail. fst s \<le> snd s \<and> b \<le> fst s \<and> snd s \<le> snd (last ?tail)"
      "max b (y2 (Region.bbox r)) \<le> snd (last ?tail)"
      by blast+
    from ih(5) have bl: "b \<le> snd (last ?tail)" by simp
    have c: "contiguous ((t, b) # ?tail)"
      using ih(1,2) by (simp add: contiguous_Cons [OF ne])
    have s: "sorted (map fst ((t, b) # ?tail))"
      using ih(3,4) "2.prems" by fastforce
    have m: "\<forall>s \<in> set ((t, b) # ?tail).
        fst s \<le> snd s \<and> t \<le> fst s \<and> snd s \<le> snd (last ((t, b) # ?tail))"
      using ih(4) bl "2.prems" ne by fastforce
    have l: "b \<le> snd (last ((t, b) # ?tail))"
      using bl ne by simp
    from c s m l show ?thesis unfolding eq by simp
  next
    case False
    then have eq: "grow H M k t b (r # rs) = grow H M k t (max b (y2 (Region.bbox r))) rs"
      by auto
    from "2.prems" have "t \<le> max b (y2 (Region.bbox r))" by simp
    from "2.IH"(2) [OF False this] show ?thesis unfolding eq by simp
  qed
qed

lemma grow_bounded:
  "b \<le> ph \<Longrightarrow> \<forall>r \<in> set rs. y2 (Region.bbox r) \<le> ph \<Longrightarrow>
   \<forall>s \<in> set (grow H M k t b rs). snd s \<le> ph"
  by (induction H M k t b rs rule: grow.induct) auto

lemma map_fst_extend_last: "map fst (extend_last ph spans) = map fst spans"
proof (cases "spans = []")
  case True
  then show ?thesis by (simp add: extend_last_def)
next
  case False
  from arg_cong [OF append_butlast_last_id [OF False], of "map fst"]
  have "map fst (butlast spans) @ [fst (last spans)] = map fst spans"
    by simp
  then show ?thesis by (simp add: extend_last_def)
qed

lemma contiguous_new_bottom:
  "contiguous spans \<Longrightarrow> spans \<noteq> [] \<Longrightarrow>
   contiguous (butlast spans @ [(fst (last spans), c)])"
  by (induction spans rule: contiguous.induct) auto

lemma contiguous_extend_last: "contiguous spans \<Longrightarrow> contiguous (extend_last ph spans)"
  by (simp add: extend_last_def contiguous_new_bottom)

lemma last_extend_last:
  assumes "spans \<noteq> []" and "\<forall>s \<in> set spans. snd s \<le> ph"
    and "\<forall>s \<in> set spans. snd s \<le> snd (last spans)"
  shows "snd (last (extend_last ph spans)) = ph"
proof (cases "list_all (\<lambda>s. snd s < ph) spans")
  case True
  with assms(1) show ?thesis by (simp add: extend_last_def)
next
  case False
  then obtain s where s: "s \<in> set spans" "ph \<le> snd s"
    by (auto simp: list_all_iff not_less)
  with assms(3) have "ph \<le> snd (last spans)" by fastforce
  moreover from assms(1,2) have "snd (last spans) \<le> ph" by simp
  ultimately show ?thesis using False by (simp add: extend_last_def)
qed

lemma extend_last_heights:
  assumes "\<forall>s \<in> set spans. fst s \<le> snd s"
  shows "\<forall>s \<in> set (extend_last ph spans). fst s \<le> snd s"
proof (cases "spans \<noteq> [] \<and> list_all (\<lambda>s. snd s < ph) spans")
  case True
  then have "last spans \<in> set spans" and "snd (last spans) < ph"
    by (auto simp: list_all_iff)
  with assms have "fst (last spans) \<le> ph" by fastforce
  with assms True show ?thesis
    by (auto simp: extend_last_def dest: in_set_butlastD)
next
  case False
  with assms show ?thesis by (auto simp: extend_last_def)
qed

lemma map_nth_spans:
  "map (\<lambda>i. (fst (xs ! i), snd (xs ! i))) [0 ..< length xs] = xs"
  using map_nth [of xs] by simp

lemma partition_spans:
  assumes "sort_regions regions = r # rs"
  shows "map (\<lambda>b. (y1 (Band.bbox b), y2 (Band.bbox b))) (partition ph pw regions M H)
           = extend_last ph (grow H M 0 0 (y2 (Region.bbox r)) rs)"
proof -
  let ?spans = "extend_last ph (grow H M 0 0 (y2 (Region.bbox r)) rs)"
  have p: "partition ph pw regions M H
             = map (make_band pw (r # rs) ?spans) [0 ..< length ?spans]"
    using assms by (simp add: partition_def Let_def)
  have "map (\<lambda>b. (y1 (Band.bbox b), y2 (Band.bbox b)))
          (map (make_band pw (r # rs) ?spans) [0 ..< length ?spans])
        = map (\<lambda>i. (fst (?spans ! i), snd (?spans ! i))) [0 ..< length ?spans]"
    by (simp add: make_band_def comp_def)
  also have "\<dots> = ?spans" by (rule map_nth_spans)
  finally show ?thesis by (simp only: p)
qed


text \<open>
  The bands tile the page: when every region ends within the page, the first band
  starts at the page top, each band ends where the next begins, and the last band ends
  at the page height.
\<close>

lemma partition_tiles_page:
  assumes "\<forall>r \<in> set regions. 0 \<le> y2 (Region.bbox r) \<and> y2 (Region.bbox r) \<le> ph"
  shows "contiguous (map (\<lambda>b. (y1 (Band.bbox b), y2 (Band.bbox b)))
                       (partition ph pw regions M H))
         \<and> fst (hd (map (\<lambda>b. (y1 (Band.bbox b), y2 (Band.bbox b)))
                       (partition ph pw regions M H))) = 0
         \<and> snd (last (map (\<lambda>b. (y1 (Band.bbox b), y2 (Band.bbox b)))
                       (partition ph pw regions M H))) = ph
         \<and> (0 \<le> ph \<longrightarrow>
              (\<forall>s \<in> set (map (\<lambda>b. (y1 (Band.bbox b), y2 (Band.bbox b)))
                             (partition ph pw regions M H)). fst s \<le> snd s))"
proof (cases "sort_regions regions")
  case Nil
  then show ?thesis by (simp add: partition_def)
next
  case (Cons r rs)
  let ?g = "grow H M 0 0 (y2 (Region.bbox r)) rs"
  have mem: "set (r # rs) = set regions"
    using set_sort_regions [of regions] Cons by simp
  from mem assms have r: "0 \<le> y2 (Region.bbox r)" "y2 (Region.bbox r) \<le> ph"
    and rs: "\<forall>q \<in> set rs. y2 (Region.bbox q) \<le> ph"
    by auto
  have ne: "?g \<noteq> []" by (rule grow_nonempty)
  from grow_spans [OF r(1)]
  have g: "contiguous ?g" "fst (hd ?g) = 0" "\<forall>s \<in> set ?g. snd s \<le> snd (last ?g)"
    "\<forall>s \<in> set ?g. fst s \<le> snd s"
    by blast+
  from grow_bounded [OF r(2) rs] have b: "\<forall>s \<in> set ?g. snd s \<le> ph" .
  have c: "contiguous (extend_last ph ?g)"
    using g(1) by (rule contiguous_extend_last)
  have "hd (map fst (extend_last ph ?g)) = hd (map fst ?g)"
    by (simp only: map_fst_extend_last)
  moreover have "extend_last ph ?g \<noteq> []"
    using ne arg_cong [OF map_fst_extend_last, of length ph ?g] by auto
  ultimately have h: "fst (hd (extend_last ph ?g)) = 0"
    using ne g(2) by (simp add: hd_map)
  have l: "snd (last (extend_last ph ?g)) = ph"
    using ne b g(3) by (rule last_extend_last)
  have p: "\<forall>s \<in> set (extend_last ph ?g). fst s \<le> snd s"
    using g(4) by (rule extend_last_heights)
  from c h l p show ?thesis unfolding partition_spans [OF Cons] by blast
qed

text \<open>On the scenario of section 8 the partitioner gives two bands, the first covering
  \<open>[0, 900)\<close> and the second the remainder to 1000; the third region is in the
  second band.\<close>

lemma partition_scenario:
  "map (\<lambda>b. (y1 (Band.bbox b), y2 (Band.bbox b), map label (member_regions b)))
     (partition 1000 800 scenario_regions 2 50)
   = [(0, 900, [''text'', ''table'']), (900, 1000, [''text''])]"
  by (simp add: scenario_regions_def partition_def region_le_def extend_last_def Let_def
      make_band_def assign_band_def overlap_def translate_def upt_rec)




text \<open>
  C9. With no region, the partitioner returns exactly one band, and this band spans
  the whole page: full width, from the page top to the page height.
\<close>

theorem partition_no_regions_one_full_page_band:
  "partition ph pw [] M H
     = [\<lparr>index = 0, Band.bbox = \<lparr>x1 = 0, y1 = 0, x2 = pw, y2 = ph\<rparr>, member_regions = []\<rparr>]"
  by (simp add: partition_def)

theorem partition_no_regions_one_full_page_band_witness:
  "length (partition 1000 800 [] 8 50) = 1
   \<and> Band.bbox (hd (partition 1000 800 [] 8 50)) = \<lparr>x1 = 0, y1 = 0, x2 = 800, y2 = 1000\<rparr>"
  using partition_no_regions_one_full_page_band [of 1000 800 8 50] by simp

text \<open>
  C5. If the call to the layout backend fails (unreachable or timed out) for a request
  that passed the input checks, the run ends with the upstream-unavailable error and
  no result, whatever the extraction backend would do; the handler then raises the 500
  that carries the text of this error, and returns no response.
\<close>

theorem layout_failure_fails_the_run:
  assumes "\<not> invalid_file_type upload"
    and "decodable env (file_bytes upload)" and "1 \<le> max_segs" and "1 \<le> min_h"
    and "layout_backend env (file_bytes upload) = Inl f"
  shows "run env order (file_bytes upload) max_segs min_h = Inl (UpstreamUnavailable f)
         \<and> snd (process_document osenv (run_preprocessing_pipeline_with_splits env order pairs)
                  upload max_segs min_h t0 t1)
           = Inl \<lparr>status_code = 500,
                  detail = ''Failed to process document: ''
                           @ exc_str (raise_of (UpstreamUnavailable f))\<rparr>"
  using assms
  by (simp add: run_def process_document_def run_preprocessing_pipeline_with_splits_def)

theorem layout_failure_fails_the_run_witness:
  "\<not> invalid_file_type png_upload
   \<and> decodable layout_down_env (file_bytes png_upload) \<and> (1::int) \<le> 8 \<and> (1::int) \<le> 50
   \<and> layout_backend layout_down_env (file_bytes png_upload) = Inl TimedOut
   \<and> run layout_down_env [2, 0, 1] (file_bytes png_upload) 8 50
       = Inl (UpstreamUnavailable TimedOut)
   \<and> snd (process_document Map.empty
            (run_preprocessing_pipeline_with_splits layout_down_env [2, 0, 1] no_pairs)
            png_upload 8 50 0 1)
       = Inl \<lparr>status_code = 500,
              detail = ''Failed to process document: upstream unavailable: layout backend timed out''\<rparr>"
proof -
  have a: "\<not> invalid_file_type png_upload"
    by (simp add: invalid_file_type_def png_upload_def)
  have b: "decodable layout_down_env (file_bytes png_upload)"
    by (simp add: layout_down_env_def sample_env_def png_upload_def)
  have c: "(1::int) \<le> 8" and d: "(1::int) \<le> 50" by simp_all
  have e: "layout_backend layout_down_env (file_bytes png_upload) = Inl TimedOut"
    by (simp add: layout_down_env_def)
  from layout_failure_fails_the_run [OF a b c d e, of "[2, 0, 1]" Map.empty no_pairs 0 1]
    a b c d e
  show ?thesis by (simp add: raise_of_def)
qed

text \<open>
  C2. A request whose payload does not decode, or whose \<open>max_segments\<close> or
  \<open>min_height\<close> is below 1, ends with the input error, and no backend has a part in
  it: whatever the layout backend and the extraction backend are, the run is the same
  input error, and the handler raises with the text of this error and returns no
  response. A request whose declared content type is not an image is refused by the
  handler before the upload is read and before the pipeline is called.
\<close>

theorem invalid_input_reported_without_backend_calls:
  assumes "\<not> decodable env (file_bytes upload) \<or> max_segs < 1 \<or> min_h < 1"
  shows "run (env\<lparr>layout_backend := lb, extraction_backend := eb\<rparr>) order
           (file_bytes upload) max_segs min_h = Inl InputError
         \<and> (\<not> invalid_file_type upload \<longrightarrow>
              snd (process_document osenv
                     (run_preprocessing_pipeline_with_splits
                        (env\<lparr>layout_backend := lb, extraction_backend := eb\<rparr>) order pairs)
                     upload max_segs min_h t0 t1)
                = Inl \<lparr>status_code = 500,
                       detail = ''Failed to process document: input error''\<rparr>)
         \<and> (invalid_file_type upload \<longrightarrow>
              process_document osenv pl upload max_segs min_h t0 t1
                = ([Log WARNING],
                   Inl \<lparr>status_code = 400,
                        detail = ''File must be an image (JPEG, PNG, etc.)''\<rparr>))"
proof -
  have r: "run (env\<lparr>layout_backend := lb, extraction_backend := eb\<rparr>) order
             (file_bytes upload) max_segs min_h = Inl InputError"
    using assms by (auto simp: run_def)
  show ?thesis
    by (simp add: r process_document_def run_preprocessing_pipeline_with_splits_def
        raise_of_def)
qed

theorem invalid_input_reported_without_backend_calls_witness:
  "(0::int) < 1
   \<and> \<not> invalid_file_type png_upload
   \<and> run sample_env [2, 0, 1] (file_bytes png_upload) 0 50 = Inl InputError
   \<and> run layout_down_env [2, 0, 1] (file_bytes png_upload) 0 50 = Inl InputError
   \<and> snd (process_document Map.empty
            (run_preprocessing_pipeline_with_splits sample_env [2, 0, 1] no_pairs)
            png_upload 0 50 0 1)
       = Inl \<lparr>status_code = 500, detail = ''Failed to process document: input error''\<rparr>
   \<and> \<not> decodable sample_env (file_bytes empty_upload)
   \<and> \<not> invalid_file_type empty_upload
   \<and> snd (process_document Map.empty
            (run_preprocessing_pipeline_with_splits sample_env [2, 0, 1] no_pairs)
            empty_upload 8 50 0 1)
       = Inl \<lparr>status_code = 500, detail = ''Failed to process document: input error''\<rparr>
   \<and> invalid_file_type pdf_upload
   \<and> process_document Map.empty three_band_pipeline pdf_upload 8 0 0 1
       = ([Log WARNING],
          Inl \<lparr>status_code = 400, detail = ''File must be an image (JPEG, PNG, etc.)''\<rparr>)"
proof -
  have a1: "\<not> decodable sample_env (file_bytes png_upload) \<or> (0::int) < 1 \<or> (50::int) < 1"
    by simp
  have a2: "\<not> decodable sample_env (file_bytes empty_upload) \<or> (8::int) < 1 \<or> (50::int) < 1"
    by (simp add: sample_env_def empty_upload_def)
  have a3: "\<not> decodable sample_env (file_bytes pdf_upload) \<or> (8::int) < 1 \<or> (0::int) < 1"
    by simp
  have g1: "\<not> invalid_file_type png_upload"
    by (simp add: invalid_file_type_def png_upload_def)
  have g2: "\<not> invalid_file_type empty_upload"
    by (simp add: invalid_file_type_def empty_upload_def)
  have g3: "invalid_file_type pdf_upload"
    by (simp add: invalid_file_type_def pdf_upload_def)
  have e1: "sample_env\<lparr>layout_backend := layout_backend sample_env,
                        extraction_backend := extraction_backend sample_env\<rparr> = sample_env"
    by simp
  have e2: "sample_env\<lparr>layout_backend := (\<lambda>bytes. Inl TimedOut),
                        extraction_backend := extraction_backend sample_env\<rparr>
              = layout_down_env"
    by (simp add: layout_down_env_def)
  note w1 = invalid_input_reported_without_backend_calls
         [OF a1, where lb = "layout_backend sample_env"
            and eb = "extraction_backend sample_env" and order = "[2, 0, 1]"
            and osenv = Map.empty and pairs = no_pairs and pl = three_band_pipeline
            and ?t0.0 = 0 and ?t1.0 = 1, unfolded e1]
  note w2 = invalid_input_reported_without_backend_calls
         [OF a1, where lb = "\<lambda>bytes. Inl TimedOut"
            and eb = "extraction_backend sample_env" and order = "[2, 0, 1]"
            and osenv = Map.empty and pairs = no_pairs and pl = three_band_pipeline
            and ?t0.0 = 0 and ?t1.0 = 1, unfolded e2]
  note w3 = invalid_input_reported_without_backend_calls
         [OF a2, where lb = "layout_backend sample_env"
            and eb = "extraction_backend sample_env" and order = "[2, 0, 1]"
            and osenv = Map.empty and pairs = no_pairs and pl = three_band_pipeline
            and ?t0.0 = 0 and ?t1.0 = 1, unfolded e1]
  note w4 = invalid_input_reported_without_backend_calls
         [OF a3, where lb = "layout_backend sample_env"
            and eb = "extraction_backend sample_env" and order = "[2, 0, 1]"
            and osenv = Map.empty and pairs = no_pairs and pl = three_band_pipeline
            and ?t0.0 = 0 and ?t1.0 = 1, unfolded e1]
  from w1 w2 w3 w4 a1 a2 a3 g1 g2 g3 show ?thesis by simp
qed



end
